theory Spec2Isabelle
  imports Main "HOL-Library.Word"
begin

section \<open>JavaScript values used by \<^verbatim>\<open>src/src/App.tsx\<close>\<close>

text \<open>
  A JavaScript string is a sequence of UTF-16 code units. String literals of the source
  are ASCII and are written with \<open>js_str\<close>.
\<close>

type_synonym js_string = "16 word list"

definition js_str :: "string \<Rightarrow> js_string" where
  "js_str cs = map (\<lambda>c. of_nat (of_char c)) cs"

text \<open>
  \<^verbatim>\<open>String.prototype.trim\<close> strips the code units of the ECMAScript productions
  WhiteSpace (TAB, VT, FF, ZWNBSP and the Unicode category Zs) and LineTerminator
  (LF, CR, LS, PS) from both ends.
\<close>

definition trim_units :: "16 word list" where
  "trim_units =
     [0x0009, 0x000A, 0x000B, 0x000C, 0x000D, 0x0020, 0x00A0, 0x1680,
      0x2000, 0x2001, 0x2002, 0x2003, 0x2004, 0x2005, 0x2006, 0x2007,
      0x2008, 0x2009, 0x200A, 0x2028, 0x2029, 0x202F, 0x205F, 0x3000, 0xFEFF]"

definition is_white :: "16 word \<Rightarrow> bool" where
  "is_white c = (c \<in> set trim_units)"

definition trim :: "js_string \<Rightarrow> js_string" where
  "trim s = rev (dropWhile is_white (rev (dropWhile is_white s)))"

text \<open>The exceptions that the modelled code can see.\<close>

datatype js_exn = RemoteError | TypeError | SyntaxError

section \<open>Data model\<close>

text \<open>\<^verbatim>\<open>interface Job\<close>; the fields \<^verbatim>\<open>id\<close> and \<^verbatim>\<open>type\<close> are renamed.\<close>

record job =
  job_id :: js_string
  title :: js_string
  company :: js_string
  location :: js_string
  salary :: js_string
  job_type :: js_string
  description :: js_string
  requirements :: "js_string list"
  posted :: js_string
  remote :: bool
  experience_level :: js_string

text \<open>The user object delivered by the auth service.\<close>

record auth_user =
  user_id :: js_string
  email :: js_string

text \<open>The six \<^verbatim>\<open>useState\<close> cells of the component, with their initial values.\<close>

record app =
  user :: "auth_user option"
  loading :: bool
  searchQuery :: js_string
  jobs :: "job list"
  searchLoading :: bool
  savedJobs :: "js_string list"

definition initial_app :: app where
  "initial_app =
     \<lparr>user = None, loading = True, searchQuery = [], jobs = [],
      searchLoading = False, savedJobs = []\<rparr>"

section \<open>The AI-generation boundary\<close>

text \<open>The JSON-schema-like literal passed to \<^verbatim>\<open>blink.ai.generateObject\<close>.\<close>

datatype schema =
    SString
  | SBoolean
  | SArray schema
  | SObject "(string \<times> schema) list"

record ai_request =
  prompt :: js_string
  req_schema :: schema

text \<open>The \<^verbatim>\<open>object\<close> field of the resolved value.\<close>

record ai_object =
  obj_jobs :: "job list"

text \<open>
  The schema literal of \<^verbatim>\<open>loadInitialJobs\<close> (lines 65 to 88) and the one of
  \<^verbatim>\<open>handleSearch\<close> (lines 109 to 132), each transcribed from its own place.
\<close>

definition initial_schema :: schema where
  "initial_schema =
     SObject [(''jobs'', SArray (SObject
       [(''id'', SString), (''title'', SString), (''company'', SString),
        (''location'', SString), (''salary'', SString), (''type'', SString),
        (''description'', SString), (''requirements'', SArray SString),
        (''posted'', SString), (''remote'', SBoolean),
        (''experience_level'', SString)]))]"

definition search_schema :: schema where
  "search_schema =
     SObject [(''jobs'', SArray (SObject
       [(''id'', SString), (''title'', SString), (''company'', SString),
        (''location'', SString), (''salary'', SString), (''type'', SString),
        (''description'', SString), (''requirements'', SArray SString),
        (''posted'', SString), (''remote'', SBoolean),
        (''experience_level'', SString)]))]"

definition initial_prompt :: js_string where
  "initial_prompt =
     js_str ''Generate 8 realistic entry-level job postings for new graduates in tech, marketing, finance, and other fields. Include diverse companies and locations.''"

text \<open>The template literal of line 108; \<open>0x22\<close> is the double quote.\<close>

definition search_prompt :: "js_string \<Rightarrow> js_string" where
  "search_prompt q =
     js_str ''Find entry-level jobs for new graduates related to: '' @ [0x22] @ q @ [0x22]
     @ js_str ''. Generate 6 realistic job postings that match this search query.''"

section \<open>The persistence boundary\<close>

text \<open>The record passed to \<^verbatim>\<open>blink.db.savedJobs.create\<close>.\<close>

record saved_job =
  rec_id :: js_string
  userId :: js_string
  jobId :: js_string
  createdAt :: js_string

text \<open>
  Everything a handler does to the outside, in program order: the remote calls it issues
  and the console lines it prints (the logged error object is left out).
\<close>

datatype effect =
    AiGenerate ai_request
  | DbList js_string
  | DbDelete js_string
  | DbCreate saved_job
  | ConsoleError string
  | ConsoleLog string

text \<open>
  \<^verbatim>\<open>Number::toString\<close> on the integer that \<^verbatim>\<open>Date.now()\<close> returns: plain
  decimal digits (its magnitude stays far below \<open>10^21\<close>), with a minus sign before 1970.
\<close>

fun digits :: "nat \<Rightarrow> js_string" where
  "digits n = (if n < 10 then [of_nat (48 + n)] else digits (n div 10) @ [of_nat (48 + n mod 10)])"

declare digits.simps [simp del]

definition number_toString :: "int \<Rightarrow> js_string" where
  "number_toString i = (if i < 0 then 0x2D # digits (nat (- i)) else digits (nat i))"

text \<open>
  \<^verbatim>\<open>JSON.stringify\<close> on an array of strings (ECMA-262, QuoteJSONString and
  SerializeJSONArray without indentation). The string is read by code points: a leading
  surrogate followed by a trailing one is copied, a lone surrogate is escaped.
\<close>

definition hex_digit :: "nat \<Rightarrow> 16 word" where
  "hex_digit d = (if d < 10 then of_nat (48 + d) else of_nat (87 + d))"

definition UnicodeEscape :: "16 word \<Rightarrow> js_string" where
  "UnicodeEscape c =
     [0x5C, 0x75, hex_digit (unat c div 4096 mod 16), hex_digit (unat c div 256 mod 16),
      hex_digit (unat c div 16 mod 16), hex_digit (unat c mod 16)]"

definition is_leading :: "16 word \<Rightarrow> bool" where
  "is_leading c = (0xD800 \<le> c \<and> c \<le> 0xDBFF)"

definition is_trailing :: "16 word \<Rightarrow> bool" where
  "is_trailing c = (0xDC00 \<le> c \<and> c \<le> 0xDFFF)"

definition quote_unit :: "16 word \<Rightarrow> js_string" where
  "quote_unit c =
     (if c = 0x08 then [0x5C, 0x62]
      else if c = 0x09 then [0x5C, 0x74]
      else if c = 0x0A then [0x5C, 0x6E]
      else if c = 0x0C then [0x5C, 0x66]
      else if c = 0x0D then [0x5C, 0x72]
      else if c = 0x22 then [0x5C, 0x22]
      else if c = 0x5C then [0x5C, 0x5C]
      else if c < 0x20 \<or> is_leading c \<or> is_trailing c then UnicodeEscape c
      else [c])"

fun quote_units :: "js_string \<Rightarrow> js_string" where
  "quote_units [] = []"
| "quote_units [c] = quote_unit c"
| "quote_units (c # d # cs) =
     (if is_leading c \<and> is_trailing d then c # d # quote_units cs
      else quote_unit c @ quote_units (d # cs))"

definition QuoteJSONString :: "js_string \<Rightarrow> js_string" where
  "QuoteJSONString s = [0x22] @ quote_units s @ [0x22]"

fun join_comma :: "js_string list \<Rightarrow> js_string" where
  "join_comma [] = []"
| "join_comma [x] = x"
| "join_comma (x # y # ys) = x @ [0x2C] @ join_comma (y # ys)"

definition JSON_stringify :: "js_string list \<Rightarrow> js_string" where
  "JSON_stringify xs = [0x5B] @ join_comma (map QuoteJSONString xs) @ [0x5D]"

text \<open>
  The browser-local store is a map from keys to texts; \<^verbatim>\<open>getItem\<close> reads it and
  \<^verbatim>\<open>setItem\<close> writes it, and both are taken to succeed. The world of a handler is
  the component state together with that store.
\<close>

record world =
  ui :: app
  localStorage :: "js_string \<rightharpoonup> js_string"

text \<open>The template literal \<^verbatim>\<open>`savedJobs_${user.id}`\<close>.\<close>

definition savedJobs_key :: "auth_user \<Rightarrow> js_string" where
  "savedJobs_key u = js_str ''savedJobs_'' @ user_id u"

section \<open>The handlers of the component\<close>

text \<open>
  Every handler is an \<^verbatim>\<open>async\<close> function with one \<^verbatim>\<open>await\<close>. The settlement of
  the awaited promise is an argument of the model: \<open>Inl\<close> a rejection, \<open>Inr\<close> the
  resolved value. A handler reads the state of the render that created it; the one-piece
  models below run it to completion on that state, with no other handler in between.
\<close>

subsection \<open>\<^verbatim>\<open>loadSavedJobs\<close> (lines 42 to 57)\<close>

text \<open>
  The result of a run: the world after it, what it did, and the exception with which the
  returned promise rejects, if any.
\<close>

record settled =
  final :: world
  trace :: "effect list"
  rejection :: "js_exn option"

text \<open>
  \<open>parse\<close> is the platform's \<^verbatim>\<open>JSON.parse\<close>, seen at the declared type
  \<^verbatim>\<open>string[]\<close> of the state cell its result is stored in: it throws or yields the
  decoded list. It is called inside the \<^verbatim>\<open>catch\<close> block, so what it throws
  escapes. \<^verbatim>\<open>if (localSaved)\<close> is false for a missing entry and for the empty text.
  \<open>u\<close> is the user of the effect that calls the function (non-null there, line 40).
\<close>

definition loadSavedJobs ::
  "(js_string \<Rightarrow> js_exn + js_string list) \<Rightarrow> js_exn + saved_job list \<Rightarrow> auth_user \<Rightarrow> world \<Rightarrow> settled"
where
  "loadSavedJobs parse listed u w =
     (case listed of
        Inr saved \<Rightarrow>
          \<lparr>final = w\<lparr>ui := (ui w)\<lparr>savedJobs := map jobId saved\<rparr>\<rparr>,
           trace = [DbList (user_id u)], rejection = None\<rparr>
      | Inl error \<Rightarrow>
          (let tr = [DbList (user_id u), ConsoleError ''Error loading saved jobs:'']
           in case localStorage w (savedJobs_key u) of
                None \<Rightarrow> \<lparr>final = w, trace = tr, rejection = None\<rparr>
              | Some localSaved \<Rightarrow>
                  if localSaved = [] then \<lparr>final = w, trace = tr, rejection = None\<rparr>
                  else (case parse localSaved of
                          Inl ex \<Rightarrow> \<lparr>final = w, trace = tr, rejection = Some ex\<rparr>
                        | Inr ids \<Rightarrow>
                            \<lparr>final = w\<lparr>ui := (ui w)\<lparr>savedJobs := ids\<rparr>\<rparr>,
                             trace = tr, rejection = None\<rparr>)))"

subsection \<open>\<^verbatim>\<open>loadInitialJobs\<close> (lines 59 to 96)\<close>

text \<open>
  The part before the \<^verbatim>\<open>await\<close> sets the flag and issues the request; the part
  after it runs when the promise settles, on the state of that moment.
\<close>

definition loadInitialJobs_begin :: "app \<Rightarrow> app \<times> ai_request" where
  "loadInitialJobs_begin s =
     (s\<lparr>searchLoading := True\<rparr>, \<lparr>prompt = initial_prompt, req_schema = initial_schema\<rparr>)"

definition loadInitialJobs_resume :: "js_exn + ai_object \<Rightarrow> app \<Rightarrow> app \<times> effect list" where
  "loadInitialJobs_resume r s =
     (case r of
        Inr object \<Rightarrow> (s\<lparr>jobs := obj_jobs object, searchLoading := False\<rparr>, [])
      | Inl error \<Rightarrow> (s\<lparr>searchLoading := False\<rparr>, [ConsoleError ''Error loading jobs:'']))"

definition loadInitialJobs :: "(ai_request \<Rightarrow> js_exn + ai_object) \<Rightarrow> app \<Rightarrow> app \<times> effect list" where
  "loadInitialJobs ai s =
     (let (s1, req) = loadInitialJobs_begin s;
          (s2, out) = loadInitialJobs_resume (ai req) s1
      in (s2, AiGenerate req # out))"

subsection \<open>\<^verbatim>\<open>handleSearch\<close> (lines 102 to 140)\<close>

text \<open>\<^verbatim>\<open>if (!searchQuery.trim()) return\<close>: the empty string is the only falsy string.\<close>

definition handleSearch_begin :: "app \<Rightarrow> (app \<times> ai_request) option" where
  "handleSearch_begin s =
     (if trim (searchQuery s) = [] then None
      else Some (s\<lparr>searchLoading := True\<rparr>,
                 \<lparr>prompt = search_prompt (searchQuery s), req_schema = search_schema\<rparr>))"

definition handleSearch_resume :: "js_exn + ai_object \<Rightarrow> app \<Rightarrow> app \<times> effect list" where
  "handleSearch_resume r s =
     (case r of
        Inr object \<Rightarrow> (s\<lparr>jobs := obj_jobs object, searchLoading := False\<rparr>, [])
      | Inl error \<Rightarrow> (s\<lparr>searchLoading := False\<rparr>, [ConsoleError ''Error searching jobs:'']))"

definition handleSearch :: "(ai_request \<Rightarrow> js_exn + ai_object) \<Rightarrow> app \<Rightarrow> app \<times> effect list" where
  "handleSearch ai s =
     (case handleSearch_begin s of
        None \<Rightarrow> (s, [])
      | Some (s1, req) \<Rightarrow>
          (let (s2, out) = handleSearch_resume (ai req) s1 in (s2, AiGenerate req # out)))"

subsection \<open>\<^verbatim>\<open>toggleSaveJob\<close> (lines 142 to 173)\<close>

text \<open>The inner \<^verbatim>\<open>catch\<close> blocks: a rejected remote call prints one line.\<close>

definition swallow :: "js_exn + unit \<Rightarrow> effect list" where
  "swallow db =
     (case db of
        Inl dbError \<Rightarrow> [ConsoleLog ''Database not available, using localStorage'']
      | Inr _ \<Rightarrow> [])"

text \<open>
  \<open>db\<close> is the settlement of the remote delete or create, \<open>now\<close> the value of
  \<^verbatim>\<open>Date.now()\<close>, \<open>stamp\<close> the text of \<^verbatim>\<open>new Date().toISOString()\<close>.
  With no user, \<^verbatim>\<open>user.id\<close> throws a TypeError: in the argument of
  \<^verbatim>\<open>create\<close> the inner \<^verbatim>\<open>catch\<close> takes it before any call is made; in the key
  of \<^verbatim>\<open>setItem\<close> the outer \<^verbatim>\<open>catch\<close> takes it, after \<^verbatim>\<open>setSavedJobs\<close>.
\<close>

definition toggleSaveJob ::
  "js_exn + unit \<Rightarrow> int \<Rightarrow> js_string \<Rightarrow> js_string \<Rightarrow> world \<Rightarrow> world \<times> effect list"
where
  "toggleSaveJob db now stamp jid w =
     (let s = ui w in
      if jid \<in> set (savedJobs s) then
        (let newSavedJobs = filter (\<lambda>i. i \<noteq> jid) (savedJobs s);
             w1 = w\<lparr>ui := s\<lparr>savedJobs := newSavedJobs\<rparr>\<rparr>
         in case user s of
              None \<Rightarrow>
                (w1, DbDelete jid # swallow db @ [ConsoleError ''Error toggling saved job:''])
            | Some u \<Rightarrow>
                (w1\<lparr>localStorage :=
                      (localStorage w)(savedJobs_key u \<mapsto> JSON_stringify newSavedJobs)\<rparr>,
                 DbDelete jid # swallow db))
      else
        (let newSavedJobs = savedJobs s @ [jid];
             w1 = w\<lparr>ui := s\<lparr>savedJobs := newSavedJobs\<rparr>\<rparr>
         in case user s of
              None \<Rightarrow>
                (w1, [ConsoleLog ''Database not available, using localStorage'',
                      ConsoleError ''Error toggling saved job:''])
            | Some u \<Rightarrow>
                (w1\<lparr>localStorage :=
                      (localStorage w)(savedJobs_key u \<mapsto> JSON_stringify newSavedJobs)\<rparr>,
                 DbCreate \<lparr>rec_id = js_str ''saved_'' @ number_toString now,
                           userId = user_id u, jobId = jid, createdAt = stamp\<rparr>
                 # swallow db)))"

subsection \<open>Overlapping searches\<close>

text \<open>
  The browser runs one handler piece at a time. A submission runs \<^verbatim>\<open>handleSearch\<close>
  up to its \<^verbatim>\<open>await\<close> and leaves the request in flight; when a request settles, the
  rest of that call runs on the state of that moment. Nothing in the source removes a
  request from flight or compares a response with the current query. \<open>Settle i r\<close>
  settles the request at position \<open>i\<close> of the requests in flight, oldest first.
\<close>

datatype event =
    Type js_string
  | Submit
  | Settle nat "js_exn + ai_object"

record config =
  view :: app
  inflight :: "ai_request list"

fun fire :: "event \<Rightarrow> config \<Rightarrow> config" where
  "fire (Type q) c = c\<lparr>view := (view c)\<lparr>searchQuery := q\<rparr>\<rparr>"
| "fire Submit c =
     (case handleSearch_begin (view c) of
        None \<Rightarrow> c
      | Some (s1, req) \<Rightarrow> \<lparr>view = s1, inflight = inflight c @ [req]\<rparr>)"
| "fire (Settle i r) c =
     (if i < length (inflight c)
      then \<lparr>view = fst (handleSearch_resume r (view c)),
            inflight = take i (inflight c) @ drop (Suc i) (inflight c)\<rparr>
      else c)"

fun run :: "event list \<Rightarrow> config \<Rightarrow> config" where
  "run [] c = c"
| "run (e # es) c = run es (fire e c)"

subsection \<open>Reading a trace\<close>

fun ai_requests :: "effect list \<Rightarrow> ai_request list" where
  "ai_requests [] = []"
| "ai_requests (AiGenerate r # es) = r # ai_requests es"
| "ai_requests (e # es) = ai_requests es"

fun created_ids :: "effect list \<Rightarrow> js_string list" where
  "created_ids [] = []"
| "created_ids (DbCreate r # es) = rec_id r # created_ids es"
| "created_ids (e # es) = created_ids es"

fun deleted_ids :: "effect list \<Rightarrow> js_string list" where
  "deleted_ids [] = []"
| "deleted_ids (DbDelete i # es) = i # deleted_ids es"
| "deleted_ids (e # es) = deleted_ids es"

section \<open>Example inputs\<close>

definition ada :: auth_user where
  "ada = \<lparr>user_id = js_str ''u1'', email = js_str ''ada@example.org''\<rparr>"

text \<open>The component after sign-in, before anything is loaded, in a browser with an empty store.\<close>

definition fresh_world :: world where
  "fresh_world = \<lparr>ui = initial_app\<lparr>user := Some ada, loading := False\<rparr>, localStorage = Map.empty\<rparr>"

definition ai_down :: "ai_request \<Rightarrow> js_exn + ai_object" where
  "ai_down req = Inl RemoteError"

definition job1 :: job where
  "job1 =
     \<lparr>job_id = js_str ''j1'', title = js_str ''Analyst'', company = js_str ''Acme'',
      location = js_str ''Oslo'', salary = js_str ''50k'', job_type = js_str ''Full-time'',
      description = js_str ''Entry level'', requirements = [js_str ''SQL''],
      posted = js_str ''today'', remote = False, experience_level = js_str ''Entry''\<rparr>"

definition ai_one :: "ai_request \<Rightarrow> js_exn + ai_object" where
  "ai_one req = Inr \<lparr>obj_jobs = [job1]\<rparr>"

definition typed_app :: app where
  "typed_app =
     initial_app\<lparr>user := Some ada, loading := False, searchQuery := js_str ''data'',
                 jobs := [job1]\<rparr>"

text \<open>A query of a space, a tab and an ideographic space.\<close>

definition blank_app :: app where
  "blank_app =
     initial_app\<lparr>user := Some ada, loading := False, searchQuery := [0x20, 0x09, 0x3000]\<rparr>"

definition t0 :: int where
  "t0 = 1730000000000"

definition stamp0 :: js_string where
  "stamp0 = js_str ''2024-10-27T03:33:20.000Z''"

definition colliding_id :: js_string where
  "colliding_id = js_str ''saved_1730000000000''"

definition two_saved_world :: world where
  "two_saved_world =
     fresh_world\<lparr>ui := (ui fresh_world)\<lparr>savedJobs := [js_str ''j1'', js_str ''j2'']\<rparr>\<rparr>"

definition stored_world :: world where
  "stored_world =
     fresh_world\<lparr>localStorage := [savedJobs_key ada \<mapsto> JSON_stringify [js_str ''j1'']]\<rparr>"

text \<open>A decoder that knows one text.\<close>

definition parse_one :: "js_string \<Rightarrow> js_exn + js_string list" where
  "parse_one s =
     (if s = JSON_stringify [js_str ''j1''] then Inr [js_str ''j1''] else Inl SyntaxError)"

section \<open>Auxiliary facts\<close>

lemma trim_empty_iff: "trim q = [] \<longleftrightarrow> (\<forall>c\<in>set q. is_white c)"
proof
  assume "trim q = []"
  then have all: "\<forall>x\<in>set (dropWhile is_white q). is_white x"
    by (simp add: trim_def dropWhile_eq_Nil_conv)
  have "dropWhile is_white q = []"
  proof (rule ccontr)
    assume ne: "dropWhile is_white q \<noteq> []"
    then have "\<not> is_white (hd (dropWhile is_white q))"
      by (rule hd_dropWhile)
    moreover from ne have "hd (dropWhile is_white q) \<in> set (dropWhile is_white q)"
      by simp
    ultimately show False using all by blast
  qed
  then show "\<forall>c\<in>set q. is_white c"
    by (simp add: dropWhile_eq_Nil_conv)
next
  assume "\<forall>c\<in>set q. is_white c"
  then show "trim q = []"
    by (auto simp: trim_def dropWhile_eq_Nil_conv dest: set_dropWhileD)
qed

lemma trim_data: "trim (js_str ''data'') \<noteq> []"
  by (simp add: trim_def js_str_def is_white_def trim_units_def)

lemma trim_law: "trim (js_str ''law'') \<noteq> []"
  by (simp add: trim_def js_str_def is_white_def trim_units_def)

lemma schemas_agree: "initial_schema = search_schema"
  by (simp add: initial_schema_def search_schema_def)

lemma created_ids_swallow [simp]: "created_ids (swallow db) = []"
  by (cases db) (simp_all add: swallow_def)

lemma deleted_ids_swallow [simp]: "deleted_ids (swallow db) = []"
  by (cases db) (simp_all add: swallow_def)

lemma ai_requests_initial: "ai_requests (snd (loadInitialJobs_resume r s)) = []"
  by (cases r) (simp_all add: loadInitialJobs_resume_def)

lemma ai_requests_search: "ai_requests (snd (handleSearch_resume r s)) = []"
  by (cases r) (simp_all add: handleSearch_resume_def)

lemma filter_absent: "jid \<notin> set xs \<Longrightarrow> filter (\<lambda>i. i \<noteq> jid) xs = xs"
  by (induction xs) auto

lemma t0_text: "number_toString t0 = js_str ''1730000000000''"
  by (simp add: t0_def number_toString_def digits.simps js_str_def)

text \<open>The two branches of \<^verbatim>\<open>toggleSaveJob\<close> for a signed-in user.\<close>

lemma toggle_add:
  assumes "user (ui w) = Some u" and "jid \<notin> set (savedJobs (ui w))"
  shows "toggleSaveJob db now stamp jid w =
           (\<lparr>ui = (ui w)\<lparr>savedJobs := savedJobs (ui w) @ [jid]\<rparr>,
             localStorage = (localStorage w)
               (savedJobs_key u \<mapsto> JSON_stringify (savedJobs (ui w) @ [jid]))\<rparr>,
            DbCreate \<lparr>rec_id = js_str ''saved_'' @ number_toString now,
                      userId = user_id u, jobId = jid, createdAt = stamp\<rparr> # swallow db)"
  using assms by (simp add: toggleSaveJob_def Let_def)

lemma toggle_remove:
  assumes "user (ui w) = Some u" and "jid \<in> set (savedJobs (ui w))"
  shows "toggleSaveJob db now stamp jid w =
           (\<lparr>ui = (ui w)\<lparr>savedJobs := filter (\<lambda>i. i \<noteq> jid) (savedJobs (ui w))\<rparr>,
             localStorage = (localStorage w)
               (savedJobs_key u \<mapsto>
                  JSON_stringify (filter (\<lambda>i. i \<noteq> jid) (savedJobs (ui w))))\<rparr>,
            DbDelete jid # swallow db)"
  using assms by (simp add: toggleSaveJob_def Let_def)

section \<open>The claims\<close>

subsection \<open>C1: toggling a bookmark twice\<close>

text \<open>
  Claim C1, as amended. For a signed-in user and a job id that is not in the saved set,
  the toggle appends the id to the saved set and writes the JSON text of the new set under
  \<^verbatim>\<open>savedJobs_<userId>\<close>; a second toggle of the same id removes it again and
  writes the JSON text of the original set under the same key. The component state is
  then the original one, and every other key of the store is untouched. The entry under
  \<^verbatim>\<open>savedJobs_<userId>\<close> has its original value exactly when it already held the
  JSON text of the saved set; otherwise it now holds that text.
\<close>

theorem toggle_twice:
  assumes "user (ui w) = Some u" and "jid \<notin> set (savedJobs (ui w))"
  shows "let w1 = fst (toggleSaveJob db1 now1 stamp1 jid w);
             w2 = fst (toggleSaveJob db2 now2 stamp2 jid w1)
         in savedJobs (ui w1) = savedJobs (ui w) @ [jid]
          \<and> localStorage w1 (savedJobs_key u) = Some (JSON_stringify (savedJobs (ui w) @ [jid]))
          \<and> ui w2 = ui w
          \<and> localStorage w2 =
               (localStorage w)(savedJobs_key u \<mapsto> JSON_stringify (savedJobs (ui w)))
          \<and> (localStorage w (savedJobs_key u) = Some (JSON_stringify (savedJobs (ui w)))
               \<longrightarrow> w2 = w)"
proof -
  define w1 where "w1 = fst (toggleSaveJob db1 now1 stamp1 jid w)"
  define w2 where "w2 = fst (toggleSaveJob db2 now2 stamp2 jid w1)"
  have w1: "w1 = \<lparr>ui = (ui w)\<lparr>savedJobs := savedJobs (ui w) @ [jid]\<rparr>,
                   localStorage = (localStorage w)
                     (savedJobs_key u \<mapsto> JSON_stringify (savedJobs (ui w) @ [jid]))\<rparr>"
    unfolding w1_def using assms by (simp add: toggle_add)
  have u1: "user (ui w1) = Some u" and m1: "jid \<in> set (savedJobs (ui w1))"
    using assms by (simp_all add: w1)
  have w2: "w2 = \<lparr>ui = ui w,
                   localStorage = (localStorage w)
                     (savedJobs_key u \<mapsto> JSON_stringify (savedJobs (ui w)))\<rparr>"
    unfolding w2_def using assms(2)
    by (simp add: toggle_remove [OF u1 m1]) (simp add: w1 filter_absent)
  have same: "localStorage w (savedJobs_key u) = Some (JSON_stringify (savedJobs (ui w)))
              \<Longrightarrow> w2 = w"
    by (simp add: w2 fun_upd_idem)
  show ?thesis
    using same by (simp add: w1_def [symmetric] w2_def [symmetric]) (simp add: w1 w2)
qed

text \<open>
  The theorem at a user who has just signed in, with both outcomes of the remote call.
\<close>

theorem toggle_twice_witness:
  "user (ui fresh_world) = Some ada
   \<and> js_str ''j1'' \<notin> set (savedJobs (ui fresh_world))
   \<and> savedJobs (ui (fst (toggleSaveJob (Inr ()) t0 stamp0 (js_str ''j1'') fresh_world)))
       = [js_str ''j1'']
   \<and> ui (fst (toggleSaveJob (Inl RemoteError) (t0 + 1) stamp0 (js_str ''j1'')
            (fst (toggleSaveJob (Inr ()) t0 stamp0 (js_str ''j1'') fresh_world))))
       = ui fresh_world"
proof -
  have u: "user (ui fresh_world) = Some ada"
    by (simp add: fresh_world_def)
  have m: "js_str ''j1'' \<notin> set (savedJobs (ui fresh_world))"
    by (simp add: fresh_world_def initial_app_def)
  have s: "savedJobs (ui fresh_world) = []"
    by (simp add: fresh_world_def initial_app_def)
  show ?thesis
    using u m s
      toggle_twice [OF u m, of "Inr ()" t0 stamp0 "Inl RemoteError" "t0 + 1" stamp0]
    by (simp add: Let_def)
qed

text \<open>
  The claim as written fails where the store has no entry for the user: the saved set
  comes back, the entry does not. It was absent and is \<^verbatim>\<open>[]\<close> after the two toggles.
\<close>

theorem toggle_twice_counterexample:
  "user (ui fresh_world) = Some ada
   \<and> js_str ''j1'' \<notin> set (savedJobs (ui fresh_world))
   \<and> localStorage fresh_world (savedJobs_key ada) = None
   \<and> localStorage
         (fst (toggleSaveJob (Inr ()) (t0 + 1) stamp0 (js_str ''j1'')
            (fst (toggleSaveJob (Inr ()) t0 stamp0 (js_str ''j1'') fresh_world))))
         (savedJobs_key ada) = Some (js_str ''[]'')
   \<and> localStorage
         (fst (toggleSaveJob (Inr ()) (t0 + 1) stamp0 (js_str ''j1'')
            (fst (toggleSaveJob (Inr ()) t0 stamp0 (js_str ''j1'') fresh_world))))
         (savedJobs_key ada) \<noteq> localStorage fresh_world (savedJobs_key ada)"
  by (simp add: toggleSaveJob_def Let_def fresh_world_def initial_app_def JSON_stringify_def
        js_str_def)

subsection \<open>C2: a failing remote call\<close>

text \<open>
  Claim C2. When the remote delete or create rejects, with whatever exception, the toggle
  still updates the saved set: the id is removed if it was in the set and appended if it
  was not, and nothing else of the component state changes. For a signed-in user it still
  writes the JSON text of the new set under \<^verbatim>\<open>savedJobs_<userId>\<close> and touches no
  other key. The world after it is exactly the world after the same toggle with a
  successful remote call, and the rejection shows only as one more console line.
\<close>

theorem remote_failure_swallowed:
  "fst (toggleSaveJob (Inl e) now stamp jid w) = fst (toggleSaveJob (Inr ()) now stamp jid w)
   \<and> ui (fst (toggleSaveJob (Inl e) now stamp jid w)) =
       (ui w)\<lparr>savedJobs :=
          (if jid \<in> set (savedJobs (ui w)) then filter (\<lambda>i. i \<noteq> jid) (savedJobs (ui w))
           else savedJobs (ui w) @ [jid])\<rparr>
   \<and> (user (ui w) = Some u \<longrightarrow>
        localStorage (fst (toggleSaveJob (Inl e) now stamp jid w)) =
          (localStorage w)(savedJobs_key u \<mapsto> JSON_stringify
             (if jid \<in> set (savedJobs (ui w)) then filter (\<lambda>i. i \<noteq> jid) (savedJobs (ui w))
              else savedJobs (ui w) @ [jid])))
   \<and> (user (ui w) = Some u \<longrightarrow>
        snd (toggleSaveJob (Inl e) now stamp jid w) =
          snd (toggleSaveJob (Inr ()) now stamp jid w)
          @ [ConsoleLog ''Database not available, using localStorage''])"
  by (simp add: toggleSaveJob_def Let_def swallow_def split: option.splits)

text \<open>
  The theorem at a rejected create (the id is added to an empty set) and at a rejected
  delete (the id is removed from a set of two).
\<close>

theorem remote_failure_swallowed_witness:
  "user (ui fresh_world) = Some ada
   \<and> savedJobs (ui (fst (toggleSaveJob (Inl RemoteError) t0 stamp0 (js_str ''j1'') fresh_world)))
       = [js_str ''j1'']
   \<and> localStorage (fst (toggleSaveJob (Inl RemoteError) t0 stamp0 (js_str ''j1'') fresh_world))
       (savedJobs_key ada) = Some (JSON_stringify [js_str ''j1''])
   \<and> user (ui two_saved_world) = Some ada
   \<and> savedJobs (ui (fst
         (toggleSaveJob (Inl RemoteError) t0 stamp0 (js_str ''j1'') two_saved_world)))
       = [js_str ''j2'']
   \<and> localStorage (fst
         (toggleSaveJob (Inl RemoteError) t0 stamp0 (js_str ''j1'') two_saved_world))
       (savedJobs_key ada) = Some (JSON_stringify [js_str ''j2''])"
proof -
  have u: "user (ui fresh_world) = Some ada"
    by (simp add: fresh_world_def)
  have s: "savedJobs (ui fresh_world) = []"
    by (simp add: fresh_world_def initial_app_def)
  have u2: "user (ui two_saved_world) = Some ada"
    by (simp add: two_saved_world_def fresh_world_def)
  have s2: "savedJobs (ui two_saved_world) = [js_str ''j1'', js_str ''j2'']"
    by (simp add: two_saved_world_def)
  have ne: "js_str ''j2'' \<noteq> js_str ''j1''"
    by (simp add: js_str_def)
  show ?thesis
    using u s u2 s2 ne
      remote_failure_swallowed
        [of RemoteError t0 stamp0 "js_str ''j1''" fresh_world ada, THEN conjunct2]
      remote_failure_swallowed
        [of RemoteError t0 stamp0 "js_str ''j1''" two_saved_world ada, THEN conjunct2]
    by simp
qed

subsection \<open>C3: a successful initial load\<close>

text \<open>
  Claim C3. When the AI call of the initial load resolves, the job list is the
  \<^verbatim>\<open>jobs\<close> array of the response, so both have the same length, and the loading flag
  is off, so the list is what the page shows.
\<close>

theorem initial_load_sets_jobs:
  assumes "ai (snd (loadInitialJobs_begin s)) = Inr object"
  shows "jobs (fst (loadInitialJobs ai s)) = obj_jobs object
         \<and> length (jobs (fst (loadInitialJobs ai s))) = length (obj_jobs object)
         \<and> \<not> searchLoading (fst (loadInitialJobs ai s))"
  using assms
  by (simp add: loadInitialJobs_def loadInitialJobs_begin_def loadInitialJobs_resume_def)

theorem initial_load_sets_jobs_witness:
  "ai_one (snd (loadInitialJobs_begin initial_app)) = Inr \<lparr>obj_jobs = [job1]\<rparr>
   \<and> jobs (fst (loadInitialJobs ai_one initial_app)) = [job1]
   \<and> length (jobs (fst (loadInitialJobs ai_one initial_app))) = 1"
proof -
  have h: "ai_one (snd (loadInitialJobs_begin initial_app)) = Inr \<lparr>obj_jobs = [job1]\<rparr>"
    by (simp add: ai_one_def)
  show ?thesis
    using h initial_load_sets_jobs [of ai_one initial_app "\<lparr>obj_jobs = [job1]\<rparr>", OF h]
    by simp
qed

subsection \<open>C4: a blank query\<close>

text \<open>
  Claim C4. When every code unit of the query is one that \<^verbatim>\<open>trim\<close> strips (the empty
  query included), a submission issues no call, prints nothing and returns the component
  state as it was.
\<close>

theorem blank_search_is_noop:
  assumes "\<forall>c\<in>set (searchQuery s). is_white c"
  shows "handleSearch ai s = (s, [])"
  using assms by (simp add: handleSearch_def handleSearch_begin_def trim_empty_iff)

theorem blank_search_is_noop_witness:
  "searchQuery blank_app = [0x20, 0x09, 0x3000]
   \<and> is_white 0x20 \<and> is_white 0x09 \<and> is_white 0x3000
   \<and> handleSearch ai_one blank_app = (blank_app, [])"
proof -
  have q: "searchQuery blank_app = [0x20, 0x09, 0x3000]"
    by (simp add: blank_app_def)
  have w: "is_white 0x20" "is_white 0x09" "is_white 0x3000"
    by (simp_all add: is_white_def trim_units_def)
  have h: "\<forall>c\<in>set (searchQuery blank_app). is_white c"
    by (simp add: q w)
  show ?thesis
    using q w blank_search_is_noop [OF h, of ai_one] by simp
qed

subsection \<open>C5: a failing AI call\<close>

text \<open>
  Claim C5. When the AI call of an initial load, or of a search that got past the blank
  check, rejects, the job list after the invocation is the one before it and the loading
  flag is off. The same holds for the part after the \<^verbatim>\<open>await\<close> alone, on whatever
  state \<open>t\<close> the rejection arrives.
\<close>

theorem ai_failure_keeps_jobs:
  "(ai (snd (loadInitialJobs_begin s)) = Inl e \<longrightarrow>
      jobs (fst (loadInitialJobs ai s)) = jobs s
      \<and> \<not> searchLoading (fst (loadInitialJobs ai s)))
   \<and> (trim (searchQuery s) \<noteq> [] \<longrightarrow>
      ai \<lparr>prompt = search_prompt (searchQuery s), req_schema = search_schema\<rparr> = Inl e \<longrightarrow>
      jobs (fst (handleSearch ai s)) = jobs s
      \<and> \<not> searchLoading (fst (handleSearch ai s)))
   \<and> jobs (fst (loadInitialJobs_resume (Inl e) t)) = jobs t
   \<and> \<not> searchLoading (fst (loadInitialJobs_resume (Inl e) t))
   \<and> jobs (fst (handleSearch_resume (Inl e) t)) = jobs t
   \<and> \<not> searchLoading (fst (handleSearch_resume (Inl e) t))"
  by (simp add: loadInitialJobs_def loadInitialJobs_begin_def loadInitialJobs_resume_def
        handleSearch_def handleSearch_begin_def handleSearch_resume_def)

theorem ai_failure_keeps_jobs_witness:
  "ai_down (snd (loadInitialJobs_begin typed_app)) = Inl RemoteError
   \<and> trim (searchQuery typed_app) \<noteq> []
   \<and> ai_down \<lparr>prompt = search_prompt (searchQuery typed_app), req_schema = search_schema\<rparr>
       = Inl RemoteError
   \<and> jobs (fst (loadInitialJobs ai_down typed_app)) = [job1]
   \<and> \<not> searchLoading (fst (loadInitialJobs ai_down typed_app))
   \<and> jobs (fst (handleSearch ai_down typed_app)) = [job1]
   \<and> \<not> searchLoading (fst (handleSearch ai_down typed_app))"
proof -
  have q: "trim (searchQuery typed_app) \<noteq> []"
    by (simp add: typed_app_def trim_data)
  have j: "jobs typed_app = [job1]"
    by (simp add: typed_app_def)
  show ?thesis
    using q j ai_failure_keeps_jobs [of ai_down typed_app RemoteError]
    by (simp add: ai_down_def)
qed

subsection \<open>C6: the fallback of \<^verbatim>\<open>loadSavedJobs\<close>\<close>

text \<open>
  Claim C6. When the remote list rejects: with no entry under \<^verbatim>\<open>savedJobs_<userId>\<close>
  the world is left as it was; with an entry that is a text the decoder turns into a list
  of ids, the saved set becomes that list and nothing else changes. In both cases the
  promise of \<^verbatim>\<open>loadSavedJobs\<close> does not reject.
\<close>

theorem fallback_load:
  "(localStorage w (savedJobs_key u) = None \<longrightarrow>
      final (loadSavedJobs parse (Inl e) u w) = w
      \<and> rejection (loadSavedJobs parse (Inl e) u w) = None)
   \<and> (localStorage w (savedJobs_key u) = Some localSaved \<longrightarrow> localSaved \<noteq> [] \<longrightarrow>
      parse localSaved = Inr ids \<longrightarrow>
      final (loadSavedJobs parse (Inl e) u w) = w\<lparr>ui := (ui w)\<lparr>savedJobs := ids\<rparr>\<rparr>
      \<and> rejection (loadSavedJobs parse (Inl e) u w) = None)"
  by (simp add: loadSavedJobs_def Let_def)

theorem fallback_load_witness:
  "localStorage stored_world (savedJobs_key ada) = Some (JSON_stringify [js_str ''j1''])
   \<and> JSON_stringify [js_str ''j1''] \<noteq> []
   \<and> parse_one (JSON_stringify [js_str ''j1'']) = Inr [js_str ''j1'']
   \<and> savedJobs (ui (final (loadSavedJobs parse_one (Inl RemoteError) ada stored_world)))
       = [js_str ''j1'']
   \<and> localStorage fresh_world (savedJobs_key ada) = None
   \<and> final (loadSavedJobs parse_one (Inl RemoteError) ada fresh_world) = fresh_world"
proof -
  have a: "localStorage stored_world (savedJobs_key ada) = Some (JSON_stringify [js_str ''j1''])"
    by (simp add: stored_world_def)
  have b: "JSON_stringify [js_str ''j1''] \<noteq> []"
    by (simp add: JSON_stringify_def)
  have c: "parse_one (JSON_stringify [js_str ''j1'']) = Inr [js_str ''j1'']"
    by (simp add: parse_one_def)
  have d: "localStorage fresh_world (savedJobs_key ada) = None"
    by (simp add: fresh_world_def)
  show ?thesis
    using a b c d
      fallback_load [of stored_world ada parse_one RemoteError
        "JSON_stringify [js_str ''j1'']" "[js_str ''j1'']"]
      fallback_load [of fresh_world ada parse_one RemoteError]
    by simp
qed

text \<open>
  The two remaining cases of the fallback: an empty text is not decoded, and a text the
  decoder rejects leaves the world as it was and makes the promise reject.
\<close>

lemma undecoded_entry_keeps_world:
  "localStorage w (savedJobs_key u) = Some localSaved \<Longrightarrow>
   localSaved = [] \<or> parse localSaved = Inl ex \<Longrightarrow>
   final (loadSavedJobs parse (Inl e) u w) = w"
  by (auto simp: loadSavedJobs_def Let_def)

subsection \<open>C7: the two requests\<close>

text \<open>
  Claim C7, as amended. The initial load issues exactly one AI request, whose prompt is a
  fixed text asking for 8 postings, whatever the state and the query. A search submission
  whose query is not blank issues exactly one AI request, whose prompt is the query put
  between two fixed texts, the second asking for 6 postings. Both requests carry the same
  schema. (A submission with a blank query issues no request.)
\<close>

theorem request_prompts:
  "ai_requests (snd (loadInitialJobs ai s)) =
     [\<lparr>prompt = js_str ''Generate 8 realistic entry-level job postings for new graduates in tech, marketing, finance, and other fields. Include diverse companies and locations.'',
       req_schema = initial_schema\<rparr>]
   \<and> (trim (searchQuery s) \<noteq> [] \<longrightarrow>
        ai_requests (snd (handleSearch ai s)) =
          [\<lparr>prompt = js_str ''Find entry-level jobs for new graduates related to: '' @ [0x22]
                      @ searchQuery s @ [0x22]
                      @ js_str ''. Generate 6 realistic job postings that match this search query.'',
            req_schema = initial_schema\<rparr>])"
  by (simp add: loadInitialJobs_def loadInitialJobs_begin_def handleSearch_def
        handleSearch_begin_def split_beta ai_requests_initial ai_requests_search
        initial_prompt_def search_prompt_def schemas_agree)

theorem request_prompts_witness:
  "trim (searchQuery typed_app) \<noteq> []
   \<and> ai_requests (snd (handleSearch ai_one typed_app)) =
       [\<lparr>prompt = js_str ''Find entry-level jobs for new graduates related to: '' @ [0x22]
                   @ js_str ''data'' @ [0x22]
                   @ js_str ''. Generate 6 realistic job postings that match this search query.'',
         req_schema = initial_schema\<rparr>]"
proof -
  have q: "trim (searchQuery typed_app) \<noteq> []"
    by (simp add: typed_app_def trim_data)
  have v: "searchQuery typed_app = js_str ''data''"
    by (simp add: typed_app_def)
  show ?thesis
    using q v request_prompts [of ai_one typed_app] by simp
qed

text \<open>
  The claim as written has every submission issue a request; a submission of a query of
  three white-space characters issues none.
\<close>

theorem request_prompts_counterexample:
  "ai_requests (snd (handleSearch ai_one blank_app)) = []"
  by (simp add: handleSearch_def handleSearch_begin_def trim_empty_iff blank_app_def
        is_white_def trim_units_def)

subsection \<open>C8: overlapping searches\<close>

text \<open>
  Claim C8, as amended. Submit a query \<open>q1\<close>, then, before its request settles, a query
  \<open>q2\<close>, neither of them blank. Both requests are then in flight, behind those that
  were in flight before, and the job list is still the old one. Let the request of
  \<open>q1\<close> settle with \<open>ra\<close> and the one of \<open>q2\<close> with \<open>rb\<close>, in either order. The
  job list ends as the jobs of the call that resolved last, whichever was issued first: a
  resolved call overwrites the list with no check against the current query, and a
  rejected call leaves the list as it is. So when the call that settles last rejects, the
  list is that of the other call if that one resolved, and the old list if both rejected.
  No request leaves flight before it settles.
\<close>

theorem last_resolved_search_wins:
  assumes "trim q1 \<noteq> []" and "trim q2 \<noteq> []"
  shows "let c = run [Type q1, Submit, Type q2, Submit] c0; n = length (inflight c0) in
           inflight c = inflight c0 @
              [\<lparr>prompt = search_prompt q1, req_schema = search_schema\<rparr>,
               \<lparr>prompt = search_prompt q2, req_schema = search_schema\<rparr>]
           \<and> jobs (view c) = jobs (view c0)
           \<and> jobs (view (run [Settle n ra, Settle n rb] c)) =
               (case rb of Inr b \<Rightarrow> obj_jobs b
                | Inl eb \<Rightarrow> (case ra of Inr a \<Rightarrow> obj_jobs a | Inl ea \<Rightarrow> jobs (view c0)))
           \<and> jobs (view (run [Settle (Suc n) rb, Settle n ra] c)) =
               (case ra of Inr a \<Rightarrow> obj_jobs a
                | Inl ea \<Rightarrow> (case rb of Inr b \<Rightarrow> obj_jobs b | Inl eb \<Rightarrow> jobs (view c0)))
           \<and> inflight (run [Settle n ra, Settle n rb] c) = inflight c0
           \<and> inflight (run [Settle (Suc n) rb, Settle n ra] c) = inflight c0"
  using assms
  by (simp add: Let_def handleSearch_begin_def handleSearch_resume_def split: sum.splits)

text \<open>
  The theorem at two resolved calls, in both orders of settlement: the older request
  answered last wins, and the newer request answered last wins.
\<close>

theorem last_resolved_search_wins_witness:
  "trim (js_str ''data'') \<noteq> [] \<and> trim (js_str ''law'') \<noteq> []
   \<and> jobs (view (run [Settle 1 (Inr \<lparr>obj_jobs = []\<rparr>), Settle 0 (Inr \<lparr>obj_jobs = [job1]\<rparr>)]
                   (run [Type (js_str ''data''), Submit, Type (js_str ''law''), Submit]
                      \<lparr>view = initial_app, inflight = []\<rparr>))) = [job1]
   \<and> jobs (view (run [Settle 0 (Inr \<lparr>obj_jobs = [job1]\<rparr>), Settle 0 (Inr \<lparr>obj_jobs = []\<rparr>)]
                   (run [Type (js_str ''data''), Submit, Type (js_str ''law''), Submit]
                      \<lparr>view = initial_app, inflight = []\<rparr>))) = []"
  using trim_data trim_law
    last_resolved_search_wins [OF trim_data trim_law, of "\<lparr>view = initial_app, inflight = []\<rparr>"
      "Inr \<lparr>obj_jobs = [job1]\<rparr>" "Inr \<lparr>obj_jobs = []\<rparr>"]
  by (simp add: Let_def del: run.simps fire.simps)

text \<open>
  The claim as written has the list reflect the call that completes last. Two searches
  are in flight; the first resolves with one posting, then the second rejects. The call
  that completed last has no postings to show, and the list is the response of the call
  that completed first.
\<close>

theorem last_resolved_search_wins_counterexample:
  "inflight (run [Type (js_str ''data''), Submit, Type (js_str ''law''), Submit]
              \<lparr>view = initial_app, inflight = []\<rparr>)
     = [\<lparr>prompt = search_prompt (js_str ''data''), req_schema = search_schema\<rparr>,
        \<lparr>prompt = search_prompt (js_str ''law''), req_schema = search_schema\<rparr>]
   \<and> jobs (view (run [Settle 0 (Inr \<lparr>obj_jobs = [job1]\<rparr>), Settle 0 (Inl RemoteError)]
                   (run [Type (js_str ''data''), Submit, Type (js_str ''law''), Submit]
                      \<lparr>view = initial_app, inflight = []\<rparr>))) = [job1]"
  by (simp add: handleSearch_begin_def handleSearch_resume_def trim_data trim_law)

subsection \<open>C9: the identifier of the remote delete\<close>

text \<open>
  Claim C9, as amended. For a signed-in user, saving a job id and then unsaving it creates
  the remote record under the identifier \<^verbatim>\<open>saved_<timestamp>\<close> and passes the job id
  itself to the remote delete. Whenever the job id differs from that
  \<^verbatim>\<open>saved_<timestamp>\<close>, the delete is not addressed to the record the save created.
\<close>

theorem delete_id_is_job_id:
  assumes "user (ui w) = Some u" and "jid \<notin> set (savedJobs (ui w))"
  shows "let t1 = toggleSaveJob db1 now1 stamp1 jid w;
             t2 = toggleSaveJob db2 now2 stamp2 jid (fst t1)
         in created_ids (snd t1) = [js_str ''saved_'' @ number_toString now1]
          \<and> deleted_ids (snd t1) = []
          \<and> deleted_ids (snd t2) = [jid]
          \<and> created_ids (snd t2) = []
          \<and> (jid \<noteq> js_str ''saved_'' @ number_toString now1 \<longrightarrow>
               set (deleted_ids (snd t2)) \<inter> set (created_ids (snd t1)) = {})"
proof -
  define t1 where "t1 = toggleSaveJob db1 now1 stamp1 jid w"
  have u1: "user (ui (fst t1)) = Some u" and m1: "jid \<in> set (savedJobs (ui (fst t1)))"
    unfolding t1_def using assms by (simp_all add: toggle_add [OF assms])
  have c1: "created_ids (snd t1) = [js_str ''saved_'' @ number_toString now1]"
    and d1: "deleted_ids (snd t1) = []"
    unfolding t1_def by (simp_all add: toggle_add [OF assms])
  have d2: "deleted_ids (snd (toggleSaveJob db2 now2 stamp2 jid (fst t1))) = [jid]"
    and c2: "created_ids (snd (toggleSaveJob db2 now2 stamp2 jid (fst t1))) = []"
    by (simp_all add: toggle_remove [OF u1 m1])
  show ?thesis
    by (simp add: Let_def t1_def [symmetric] c1 d1 c2 d2)
qed

theorem delete_id_is_job_id_witness:
  "user (ui fresh_world) = Some ada
   \<and> js_str ''j1'' \<notin> set (savedJobs (ui fresh_world))
   \<and> js_str ''j1'' \<noteq> js_str ''saved_'' @ number_toString t0
   \<and> created_ids (snd (toggleSaveJob (Inr ()) t0 stamp0 (js_str ''j1'') fresh_world))
       = [js_str ''saved_1730000000000'']
   \<and> deleted_ids (snd (toggleSaveJob (Inr ()) (t0 + 1) stamp0 (js_str ''j1'')
        (fst (toggleSaveJob (Inr ()) t0 stamp0 (js_str ''j1'') fresh_world)))) = [js_str ''j1'']"
proof -
  have u: "user (ui fresh_world) = Some ada"
    by (simp add: fresh_world_def)
  have m: "js_str ''j1'' \<notin> set (savedJobs (ui fresh_world))"
    by (simp add: fresh_world_def initial_app_def)
  have k: "js_str ''saved_'' @ number_toString t0 = js_str ''saved_1730000000000''"
    by (simp add: t0_text js_str_def)
  have n: "js_str ''j1'' \<noteq> js_str ''saved_'' @ number_toString t0"
    by (simp add: k) (simp add: js_str_def)
  show ?thesis
    using u m n k delete_id_is_job_id [OF u m, of "Inr ()" t0 stamp0 "Inr ()" "t0 + 1" stamp0]
    by (simp add: Let_def)
qed

text \<open>
  The claim as written says never. A posting whose id is the text
  \<^verbatim>\<open>saved_1730000000000\<close>, saved at the millisecond 1730000000000, is recorded under
  its own id, and the delete of the unsave is addressed to that record.
\<close>

theorem delete_id_is_job_id_counterexample:
  "user (ui fresh_world) = Some ada
   \<and> colliding_id \<notin> set (savedJobs (ui fresh_world))
   \<and> created_ids (snd (toggleSaveJob (Inr ()) t0 stamp0 colliding_id fresh_world))
       = [colliding_id]
   \<and> deleted_ids (snd (toggleSaveJob (Inr ()) (t0 + 1) stamp0 colliding_id
        (fst (toggleSaveJob (Inr ()) t0 stamp0 colliding_id fresh_world)))) = [colliding_id]"
proof -
  have u: "user (ui fresh_world) = Some ada"
    by (simp add: fresh_world_def)
  have m: "colliding_id \<notin> set (savedJobs (ui fresh_world))"
    by (simp add: fresh_world_def initial_app_def)
  have k: "js_str ''saved_'' @ number_toString t0 = colliding_id"
    by (simp add: t0_text colliding_id_def js_str_def)
  show ?thesis
    using u m k by (simp add: toggle_add [OF u m] toggle_remove)
qed

subsection \<open>C10: no duplicates in the saved set\<close>

text \<open>
  Claim C10. A saved set without duplicates has none after a toggle: the removal drops
  every occurrence of the id, and the id is appended only when it is not in the set.
\<close>

theorem toggle_keeps_distinct:
  assumes "distinct (savedJobs (ui w))"
  shows "distinct (savedJobs (ui (fst (toggleSaveJob db now stamp jid w))))
         \<and> (jid \<in> set (savedJobs (ui w)) \<longrightarrow>
              jid \<notin> set (savedJobs (ui (fst (toggleSaveJob db now stamp jid w)))))"
  using assms by (simp add: toggleSaveJob_def Let_def split: option.splits)

theorem toggle_keeps_distinct_witness:
  "distinct (savedJobs (ui two_saved_world))
   \<and> js_str ''j1'' \<in> set (savedJobs (ui two_saved_world))
   \<and> distinct (savedJobs (ui (fst
         (toggleSaveJob (Inr ()) t0 stamp0 (js_str ''j1'') two_saved_world))))
   \<and> js_str ''j1'' \<notin> set (savedJobs (ui (fst
         (toggleSaveJob (Inr ()) t0 stamp0 (js_str ''j1'') two_saved_world))))"
proof -
  have d: "distinct (savedJobs (ui two_saved_world))"
    by (simp add: two_saved_world_def js_str_def)
  have m: "js_str ''j1'' \<in> set (savedJobs (ui two_saved_world))"
    by (simp add: two_saved_world_def)
  show ?thesis
    using d m toggle_keeps_distinct [OF d, of "Inr ()" t0 stamp0 "js_str ''j1''"] by simp
qed

end
